theory Spec2Isabelle
  imports Complex_Main "HOL-Library.Sublist"
begin

section \<open>Numbers and their printed form\<close>

text \<open>
  \<^verbatim>\<open>beatmatch_encoder.py\<close> computes with Python floats. A BPM is modelled by a
  real number and the arithmetic of \<^verbatim>\<open>calculate_pitch_adjustment\<close> is exact,
  where the interpreter rounds every operation to a double. Three things of the
  float semantics are kept, since the strings the program builds depend on them:
  \<^item> dividing by a zero float raises \<^verbatim>\<open>ZeroDivisionError\<close>;
  \<^item> \<^verbatim>\<open>round(x, 2)\<close> rounds half to even and keeps the sign of \<^verbatim>\<open>x\<close>, so a
    negative \<^verbatim>\<open>x\<close> that rounds to zero gives \<^verbatim>\<open>-0.0\<close>;
  \<^item> \<^verbatim>\<open>str\<close> of a float prints the shortest decimal that reads back as the same
    float, with at least one digit after the point: \<^verbatim>\<open>4.0\<close>, \<^verbatim>\<open>-7.14\<close>,
    \<^verbatim>\<open>-0.0\<close>.
  Python prints a float of magnitude \<^verbatim>\<open>1e16\<close> or more in exponent notation
  (\<^verbatim>\<open>1e+16\<close>, \<^verbatim>\<open>2.5e+17\<close>), and \<open>float_str\<close> does the same. Where a
  double cannot hold the exact value (overflow to \<^verbatim>\<open>inf\<close>, more than 17
  significant digits) the digits of the model are those of the exact value.
\<close>

datatype error = ZeroDivisionError

text \<open>
  The value of \<^verbatim>\<open>round(x, 2)\<close>: a sign bit and a magnitude counted in
  hundredths.
\<close>

datatype rounded = Rounded (is_negative: bool) (hundredths: nat)

definition round_half_even :: "real \<Rightarrow> int" where
  "round_half_even x =
     (let f = \<lfloor>x\<rfloor>; d = x - of_int f
      in if d < 1 / 2 then f
         else if 1 / 2 < d then f + 1
         else if even f then f else f + 1)"

definition round2 :: "real \<Rightarrow> rounded" where
  "round2 x = Rounded (x < 0) (nat (round_half_even (\<bar>x\<bar> * 100)))"

definition digit_char :: "nat \<Rightarrow> char" where
  "digit_char d = ''0123456789'' ! d"

fun nat_str :: "nat \<Rightarrow> string" where
  "nat_str n = (if n < 10 then [digit_char n] else nat_str (n div 10) @ [digit_char (n mod 10)])"

declare nat_str.simps [simp del]

text \<open>
  The digits Python prints for a float, here those of the exact value: the decimal
  digits of the hundredths with the trailing zeros dropped.
\<close>

definition strip_zeros :: "string \<Rightarrow> string" where
  "strip_zeros ds = rev (dropWhile (\<lambda>c. c = CHR ''0'') (rev ds))"

definition float_str_positional :: "nat \<Rightarrow> string" where
  "float_str_positional h =
     (let tenths = h mod 100 div 10; last = h mod 10
      in nat_str (h div 100) @ ''.''
         @ (if last = 0 then [digit_char tenths] else [digit_char tenths, digit_char last]))"

definition float_str_exponent :: "nat \<Rightarrow> string" where
  "float_str_exponent h =
     (let ds = strip_zeros (nat_str h); decpt = length (nat_str (h div 100))
      in take 1 ds @ (if length ds \<le> 1 then [] else ''.'' @ drop 1 ds)
         @ ''e+'' @ nat_str (decpt - 1))"

definition float_str :: "rounded \<Rightarrow> string" where
  "float_str v =
     (if is_negative v then ''-'' else [])
     @ (if hundredths v < 10 ^ 18 then float_str_positional (hundredths v)
        else float_str_exponent (hundredths v))"

section \<open>The pitch adjustment\<close>

text \<open>
  \<^verbatim>\<open>calculate_pitch_adjustment(track_bpm, base_bpm)\<close>, lines 44 to 64. The
  division of line 59 raises when \<^verbatim>\<open>track_bpm\<close> is zero.
\<close>

definition calculate_pitch_adjustment :: "real \<Rightarrow> real \<Rightarrow> error + string" where
  "calculate_pitch_adjustment track_bpm base_bpm =
     (if base_bpm = track_bpm then Inr ''0''
      else if track_bpm = 0 then Inl ZeroDivisionError
      else let percentage = ((base_bpm - track_bpm) / track_bpm) * 100
           in if 0 < percentage then Inr (''+'' @ float_str (round2 percentage))
              else Inr (float_str (round2 percentage)))"

section \<open>Filenames and the two patterns\<close>

text \<open>
  A Python string is modelled by a \<^typ>\<open>string\<close>, each \<^typ>\<open>char\<close> read as a code
  point below 256. On those, \<^verbatim>\<open>\d\<close> of a Python 3 text pattern is the ten ASCII
  digits, and \<^verbatim>\<open>\s\<close> is the whitespace of \<^verbatim>\<open>str.isspace\<close>: tab, line feed,
  vertical tab, form feed, carriage return, the four separators \<^verbatim>\<open>\x1c\<close> to
  \<^verbatim>\<open>\x1f\<close>, the space, \<^verbatim>\<open>\x85\<close> and the no-break space \<^verbatim>\<open>\xa0\<close>.
\<close>

definition is_digit :: "char \<Rightarrow> bool" where
  "is_digit c = (c \<in> set ''0123456789'')"

definition is_space :: "char \<Rightarrow> bool" where
  "is_space c =
     (c \<in> set [CHR 0x09, CHR 0x0A, CHR 0x0B, CHR 0x0C, CHR 0x0D,
                CHR 0x1C, CHR 0x1D, CHR 0x1E, CHR 0x1F, CHR '' '', CHR 0x85, CHR 0xA0])"

text \<open>
  \<^verbatim>\<open>TRACK_NUMBER_PATTERN = re.compile(r"^(\d+\.?\s)")\<close>, used with
  \<^verbatim>\<open>match\<close>; the result is group 1. The greedy \<^verbatim>\<open>\d+\<close> takes the whole run
  of digits; giving a digit back cannot help, since the next thing wanted is a
  period or a whitespace and the character given back is a digit. The same
  holds for the optional period.
\<close>

definition track_number_match :: "string \<Rightarrow> string option" where
  "track_number_match s =
     (let ds = takeWhile is_digit s; r = dropWhile is_digit s
      in if ds = [] then None
         else case r of
           [] \<Rightarrow> None
         | c # r' \<Rightarrow>
             if c = CHR ''.'' then
               (case r' of
                  [] \<Rightarrow> None
                | w # _ \<Rightarrow> if is_space w then Some (ds @ [c, w]) else None)
             else if is_space c then Some (ds @ [c])
             else None)"

text \<open>\<^verbatim>\<open>generate_new_filename(original_name, pitch_adjustment)\<close>, lines 67 to 90.\<close>

definition generate_new_filename :: "string \<Rightarrow> string \<Rightarrow> string" where
  "generate_new_filename original_name pitch_adjustment =
     (case track_number_match original_name of
        Some prefix' \<Rightarrow>
          (let rest = drop (length prefix') original_name
           in prefix' @ ''('' @ pitch_adjustment @ '') '' @ rest)
      | None \<Rightarrow> ''('' @ pitch_adjustment @ '') '' @ original_name)"

text \<open>
  \<^verbatim>\<open>BPM_PATTERN = re.compile(r"\s-\s(\d{2,3})\.")\<close>, used with \<^verbatim>\<open>search\<close>:
  the leftmost position where the pattern matches wins, and at one position
  the greedy \<^verbatim>\<open>\d{2,3}\<close> tries three digits before two.
\<close>

definition digits_then_dot :: "nat \<Rightarrow> string \<Rightarrow> string option" where
  "digits_then_dot n s =
     (let g = take n s
      in if length g = n \<and> list_all is_digit g \<and> take 1 (drop n s) = ''.'' then Some g
         else None)"

fun bpm_match_here :: "string \<Rightarrow> string option" where
  "bpm_match_here (a # b # c # rest) =
     (if is_space a \<and> b = CHR ''-'' \<and> is_space c then
        (case digits_then_dot 3 rest of
           Some g \<Rightarrow> Some g
         | None \<Rightarrow> digits_then_dot 2 rest)
      else None)"
| "bpm_match_here _ = None"

fun bpm_search :: "string \<Rightarrow> string option" where
  "bpm_search [] = None"
| "bpm_search (c # cs) =
     (case bpm_match_here (c # cs) of
        Some g \<Rightarrow> Some g
      | None \<Rightarrow> bpm_search cs)"

text \<open>
  \<^verbatim>\<open>float(match.group(1))\<close>: the number a string of digits denotes;
  \<open>None\<close> is the \<^verbatim>\<open>ValueError\<close> that line 117 catches.
\<close>

definition digit_value :: "char \<Rightarrow> nat" where
  "digit_value c = of_char c - 48"

definition float_of_digits :: "string \<Rightarrow> real option" where
  "float_of_digits g =
     (if g \<noteq> [] \<and> list_all is_digit g
      then Some (of_nat (foldl (\<lambda>a c. 10 * a + digit_value c) 0 g))
      else None)"

section \<open>Scanning a directory\<close>

text \<open>
  A path is the list of its components: \<^verbatim>\<open>p.parent\<close> drops the last one,
  \<^verbatim>\<open>p.name\<close> is the last one and \<^verbatim>\<open>d / name\<close> appends one.
\<close>

type_synonym path = "string list"

definition path_name :: "path \<Rightarrow> string" where
  "path_name p = (if p = [] then [] else last p)"

definition path_parent :: "path \<Rightarrow> path" where
  "path_parent p = butlast p"

definition joinpath :: "path \<Rightarrow> string \<Rightarrow> path" where
  "joinpath d n = d @ [n]"

text \<open>
  The filesystem is an external collaborator. The program uses five of its
  operations, taken here as the fields of a record over a state \<open>'fs\<close> that the
  model passes along; \<open>fs_rename\<close> returns the new state, or the message of the
  \<^verbatim>\<open>OSError\<close> it raises, in which case the state is the one before.
\<close>

record 'fs filesystem =
  fs_exists :: "'fs \<Rightarrow> path \<Rightarrow> bool"
  fs_is_dir :: "'fs \<Rightarrow> path \<Rightarrow> bool"
  fs_is_file :: "'fs \<Rightarrow> path \<Rightarrow> bool"
  fs_iterdir :: "'fs \<Rightarrow> path \<Rightarrow> path list"
  fs_rename :: "'fs \<Rightarrow> path \<Rightarrow> path \<Rightarrow> string + 'fs"

text \<open>\<^verbatim>\<open>class TrackInfo(NamedTuple)\<close>, lines 34 to 41.\<close>

record track_info =
  original_path :: path
  original_name :: string
  bpm :: real
  pitch_adjustment :: string
  new_name :: string

text \<open>
  \<^verbatim>\<open>scan_directory(directory, base_bpm)\<close>, lines 93 to 134: the loop over
  \<^verbatim>\<open>directory.iterdir()\<close> with the list \<^verbatim>\<open>tracks\<close> as accumulator. An
  exception of \<^verbatim>\<open>calculate_pitch_adjustment\<close> is not caught and ends the scan.
  The calls to the logger do not change the result and are left out.
\<close>

fun scan_entries :: "'fs filesystem \<Rightarrow> 'fs \<Rightarrow> real \<Rightarrow> path list \<Rightarrow> track_info list
    \<Rightarrow> error + track_info list" where
  "scan_entries E fs base_bpm [] tracks = Inr tracks"
| "scan_entries E fs base_bpm (entry # entries) tracks =
     (if \<not> fs_is_file E fs entry then scan_entries E fs base_bpm entries tracks
      else case bpm_search (path_name entry) of
        None \<Rightarrow> scan_entries E fs base_bpm entries tracks
      | Some g \<Rightarrow>
          (case float_of_digits g of
             None \<Rightarrow> scan_entries E fs base_bpm entries tracks
           | Some b \<Rightarrow>
               (case calculate_pitch_adjustment b base_bpm of
                  Inl e \<Rightarrow> Inl e
                | Inr adjustment \<Rightarrow>
                    scan_entries E fs base_bpm entries
                      (tracks @
                       [\<lparr>original_path = entry,
                         original_name = path_name entry,
                         bpm = b,
                         pitch_adjustment = adjustment,
                         new_name = generate_new_filename (path_name entry) adjustment\<rparr>]))))"

definition scan_directory :: "'fs filesystem \<Rightarrow> 'fs \<Rightarrow> path \<Rightarrow> real \<Rightarrow> error + track_info list" where
  "scan_directory E fs directory base_bpm =
     scan_entries E fs base_bpm (fs_iterdir E fs directory) []"

section \<open>Renaming\<close>

text \<open>
  What the program prints and logs, one constructor for each message; the texts
  themselves are not modelled.
\<close>

datatype event =
    Preview track_info
  | Renamed track_info
  | Failed track_info string
  | DirectoryMissing path
  | NotADirectory path
  | BpmNotPositive
  | BpmOutsideTypicalRange real
  | Scanning path real
  | NoFilesFound
  | Found nat
  | DryRunHeader
  | DryRunSummary nat
  | RenamedSummary nat

text \<open>
  \<^verbatim>\<open>rename_tracks(tracks, dry_run)\<close>, lines 137 to 167. The state of the loop
  is \<^verbatim>\<open>renamed_count\<close>, the filesystem and what was printed so far.
\<close>

fun rename_loop :: "'fs filesystem \<Rightarrow> bool \<Rightarrow> track_info list \<Rightarrow> nat \<times> 'fs \<times> event list
    \<Rightarrow> nat \<times> 'fs \<times> event list" where
  "rename_loop E dry_run [] st = st"
| "rename_loop E dry_run (track # tracks) (renamed_count, fs, out) =
     (let new_path = joinpath (path_parent (original_path track)) (new_name track)
      in if dry_run then
           rename_loop E dry_run tracks (renamed_count + 1, fs, out @ [Preview track])
         else case fs_rename E fs (original_path track) new_path of
           Inr fs' \<Rightarrow> rename_loop E dry_run tracks (renamed_count + 1, fs', out @ [Renamed track])
         | Inl e \<Rightarrow> rename_loop E dry_run tracks (renamed_count, fs, out @ [Failed track e]))"

definition rename_tracks :: "'fs filesystem \<Rightarrow> track_info list \<Rightarrow> bool \<Rightarrow> 'fs
    \<Rightarrow> nat \<times> 'fs \<times> event list" where
  "rename_tracks E tracks dry_run fs = rename_loop E dry_run tracks (0, fs, [])"

section \<open>The command line\<close>

text \<open>
  The namespace \<^verbatim>\<open>parse_args\<close> returns. \<^verbatim>\<open>main\<close> is modelled from there on,
  with \<^verbatim>\<open>directory\<close> already resolved; the level of the logger decides what
  is shown of the log, not what is logged, and is not modelled.
\<close>

record arguments =
  directory :: path
  base :: real
  dry_run :: bool
  verbose :: bool
  quiet :: bool

text \<open>
  \<^verbatim>\<open>main(args)\<close>, lines 217 to 276: the exit code (or the exception that
  leaves \<^verbatim>\<open>main\<close>), the filesystem afterwards, and the output.
\<close>

definition main :: "'fs filesystem \<Rightarrow> arguments \<Rightarrow> 'fs \<Rightarrow> (error + int) \<times> 'fs \<times> event list" where
  "main E parsed_args fs =
     (let d = directory parsed_args
      in if \<not> fs_exists E fs d then (Inr 1, fs, [DirectoryMissing d])
         else if \<not> fs_is_dir E fs d then (Inr 1, fs, [NotADirectory d])
         else if base parsed_args \<le> 0 then (Inr 1, fs, [BpmNotPositive])
         else
           let warn = (if base parsed_args < 60 \<or> 200 < base parsed_args
                       then [BpmOutsideTypicalRange (base parsed_args)] else []);
               out = warn @ [Scanning d (base parsed_args)]
           in case scan_directory E fs d (base parsed_args) of
                Inl e \<Rightarrow> (Inl e, fs, out)
              | Inr tracks \<Rightarrow>
                  if tracks = [] then (Inr 0, fs, out @ [NoFilesFound])
                  else
                    let (renamed_count, fs', printed) =
                          rename_tracks E tracks (dry_run parsed_args) fs
                    in (Inr 0, fs',
                        out @ [Found (length tracks)]
                        @ (if dry_run parsed_args then [DryRunHeader] else [])
                        @ printed
                        @ (if dry_run parsed_args then [DryRunSummary renamed_count]
                           else [RenamedSummary renamed_count])))"

section \<open>The specification's wording\<close>

text \<open>
  Section 4.1 of the specification, for two different BPMs: the percentage,
  rounded to two decimal places, with a plus sign in front when it is positive
  and as it prints when it is negative. The specification gives no string for a
  percentage of zero.
\<close>

definition spec_compute :: "real \<Rightarrow> real \<Rightarrow> string option" where
  "spec_compute track_bpm base_bpm =
     (let percentage = ((base_bpm - track_bpm) / track_bpm) * 100;
          v = float_str (round2 percentage)
      in if 0 < percentage then Some (''+'' @ v)
         else if percentage < 0 then Some v
         else None)"

text \<open>
  Section 4.2 of the specification. A track number prefix is one or more
  digits, then an optional period, then one separator character: \<open>sep\<close> says
  which characters separate. The new name puts the adjustment behind the prefix
  if the name starts with one, and in front of the name otherwise.
\<close>

definition track_number_prefix :: "(char \<Rightarrow> bool) \<Rightarrow> string \<Rightarrow> bool" where
  "track_number_prefix sep p =
     (p \<noteq> [] \<and> sep (last p) \<and>
      (let q = butlast p;
           ds = (if q \<noteq> [] \<and> last q = CHR ''.'' then butlast q else q)
       in ds \<noteq> [] \<and> list_all is_digit ds))"

definition compose :: "(char \<Rightarrow> bool) \<Rightarrow> string \<Rightarrow> string \<Rightarrow> string" where
  "compose sep name adjustment =
     (case find (track_number_prefix sep) (prefixes name) of
        Some p \<Rightarrow> p @ ''('' @ adjustment @ '') '' @ drop (length p) name
      | None \<Rightarrow> ''('' @ adjustment @ '') '' @ name)"

text \<open>The separator of the specification's words: the space.\<close>

definition is_blank :: "char \<Rightarrow> bool" where
  "is_blank c = (c = CHR '' '')"

section \<open>Printed numbers\<close>

lemma nat_str_digit: "n < 10 \<Longrightarrow> nat_str n = [digit_char n]"
  by (simp add: nat_str.simps)

lemma nat_str_step: "10 \<le> n \<Longrightarrow> nat_str n = nat_str (n div 10) @ [digit_char (n mod 10)]"
  by (subst nat_str.simps) simp

lemmas eval_simps =
  calculate_pitch_adjustment_def round2_def round_half_even_def float_str_def
  float_str_positional_def float_str_exponent_def strip_zeros_def
  nat_str_digit nat_str_step digit_char_def Let_def

lemma nat_str_nonempty: "nat_str n \<noteq> []"
  by (subst nat_str.simps) simp

lemma float_str_positional_length: "3 \<le> length (float_str_positional h)"
  using nat_str_nonempty [of "h div 100"]
  by (cases "nat_str (h div 100)") (simp_all add: float_str_positional_def Let_def)

lemma float_str_exponent_length: "3 \<le> length (float_str_exponent h)"
  using nat_str_nonempty [of "length (nat_str (h div 100)) - 1"]
  by (cases "nat_str (length (nat_str (h div 100)) - 1)")
     (simp_all add: float_str_exponent_def Let_def)

lemma float_str_length: "3 \<le> length (float_str v)"
  using float_str_positional_length [of "hundredths v"]
    float_str_exponent_length [of "hundredths v"]
  by (simp add: float_str_def)

lemma float_str_not_zero: "float_str v \<noteq> ''0''" "''+'' @ float_str v \<noteq> ''0''"
  using float_str_length [of v] by auto

lemma float_str_zero: "float_str (Rounded s 0) = (if s then ''-0.0'' else ''0.0'')"
  by (simp add: float_str_def float_str_positional_def nat_str_digit digit_char_def)

lemma is_negative_round2: "is_negative (round2 x) = (x < 0)"
  by (simp add: round2_def)

section \<open>The pitch adjustment: results\<close>

lemma percentage_nonzero:
  fixes t b :: real
  assumes "t \<noteq> 0" "b \<noteq> t"
  shows "((b - t) / t) * 100 \<noteq> 0"
  using assms by simp

text \<open>
  Claim C1. For positive \<open>track_bpm\<close> and \<open>base_bpm\<close> that differ,
  \<^verbatim>\<open>calculate_pitch_adjustment\<close> returns the string of the specification's
  formula: the percentage \<open>((base_bpm - track_bpm) / track_bpm) * 100\<close> rounded to
  two decimal places, with a leading plus sign when it is positive and printed as
  it is when it is negative.
\<close>

theorem pitch_adjustment_follows_formula:
  assumes "0 < track_bpm" "0 < base_bpm" "track_bpm \<noteq> base_bpm"
  shows "spec_compute track_bpm base_bpm \<noteq> None \<and>
         calculate_pitch_adjustment track_bpm base_bpm =
           Inr (the (spec_compute track_bpm base_bpm))"
proof -
  have "((base_bpm - track_bpm) / track_bpm) * 100 \<noteq> 0"
    using assms by (intro percentage_nonzero) auto
  then show ?thesis
    using assms by (auto simp add: spec_compute_def calculate_pitch_adjustment_def Let_def)
qed

theorem pitch_adjustment_follows_formula_witness:
  "(0::real) < 140 \<and> (0::real) < 130 \<and> (140::real) \<noteq> 130 \<and>
   spec_compute 140 130 = Some ''-7.14'' \<and>
   calculate_pitch_adjustment 140 130 = Inr ''-7.14''"
proof -
  have s: "spec_compute 140 130 = Some ''-7.14''"
    by (simp add: spec_compute_def eval_simps)
  show ?thesis
    using pitch_adjustment_follows_formula [of 140 130] s by simp
qed

text \<open>
  Claim C2. For every positive BPM \<open>x\<close>, \<^verbatim>\<open>calculate_pitch_adjustment(x, x)\<close>
  returns the literal string \<^verbatim>\<open>"0"\<close>.
\<close>

theorem same_bpm_gives_zero:
  "0 < x \<Longrightarrow> calculate_pitch_adjustment x x = Inr ''0''"
  by (simp add: calculate_pitch_adjustment_def)

theorem same_bpm_gives_zero_witness:
  "(0::real) < 128 \<and> calculate_pitch_adjustment 128 128 = Inr ''0''"
  using same_bpm_gives_zero [of 128] by simp

text \<open>
  Claim C3, as stated: with the track BPM first and the base BPM second, as in
  the contract of section 4.1, \<^verbatim>\<open>compute(130, 125)\<close> is \<^verbatim>\<open>"+4.0"\<close>. It is
  not: a track at 130 has to slow down to reach 125.
\<close>

theorem contract_order_counterexample:
  "calculate_pitch_adjustment 130 125 = Inr ''-3.85'' \<and>
   calculate_pitch_adjustment 130 125 \<noteq> Inr ''+4.0''"
  by (simp add: eval_simps)

text \<open>
  Claim C3, amended: the four values are those of the calls with the base BPM
  130 as second argument and the track BPM as first, which is how the tests of
  the repository call the function: \<^verbatim>\<open>calculate_pitch_adjustment(125, 130)\<close> is
  \<^verbatim>\<open>"+4.0"\<close>, \<^verbatim>\<open>(140, 130)\<close> gives \<^verbatim>\<open>"-7.14"\<close>, \<^verbatim>\<open>(128, 130)\<close> gives
  \<^verbatim>\<open>"+1.56"\<close> and \<^verbatim>\<open>(100, 130)\<close> gives \<^verbatim>\<open>"+30.0"\<close>.
\<close>

theorem test_vectors_track_first:
  "calculate_pitch_adjustment 125 130 = Inr ''+4.0'' \<and>
   calculate_pitch_adjustment 140 130 = Inr ''-7.14'' \<and>
   calculate_pitch_adjustment 128 130 = Inr ''+1.56'' \<and>
   calculate_pitch_adjustment 100 130 = Inr ''+30.0''"
  by (simp add: eval_simps)

text \<open>
  Claim C10. \<^verbatim>\<open>calculate_pitch_adjustment\<close> returns \<^verbatim>\<open>"0"\<close> exactly when the
  two BPMs are equal; for two different positive BPMs whose percentage rounds to
  zero at two decimal places the result is \<^verbatim>\<open>"+0.0"\<close> when the percentage is
  positive and \<^verbatim>\<open>"-0.0"\<close> when it is negative.
\<close>

theorem zero_string_only_for_equal_bpm:
  "(calculate_pitch_adjustment track_bpm base_bpm = Inr ''0'' \<longleftrightarrow> track_bpm = base_bpm) \<and>
   (0 < track_bpm \<and> 0 < base_bpm \<and> track_bpm \<noteq> base_bpm \<and>
    hundredths (round2 (((base_bpm - track_bpm) / track_bpm) * 100)) = 0 \<longrightarrow>
      calculate_pitch_adjustment track_bpm base_bpm =
        Inr (if 0 < ((base_bpm - track_bpm) / track_bpm) * 100 then ''+0.0'' else ''-0.0''))"
proof (intro conjI impI)
  show "calculate_pitch_adjustment track_bpm base_bpm = Inr ''0'' \<longleftrightarrow> track_bpm = base_bpm"
    using float_str_not_zero
    by (auto simp add: calculate_pitch_adjustment_def Let_def)
next
  let ?p = "((base_bpm - track_bpm) / track_bpm) * 100"
  assume a: "0 < track_bpm \<and> 0 < base_bpm \<and> track_bpm \<noteq> base_bpm \<and>
    hundredths (round2 ?p) = 0"
  then have nz: "?p \<noteq> 0" by (intro percentage_nonzero) auto
  have "round2 ?p = Rounded (is_negative (round2 ?p)) (hundredths (round2 ?p))"
    by simp
  with a have r: "round2 ?p = Rounded (?p < 0) 0"
    by (simp only: is_negative_round2)
  show "calculate_pitch_adjustment track_bpm base_bpm =
    Inr (if 0 < ?p then ''+0.0'' else ''-0.0'')"
  proof (cases "0 < ?p")
    case True
    then show ?thesis using a r
      by (simp add: calculate_pitch_adjustment_def Let_def float_str_zero)
  next
    case False
    have "?p < 0 \<or> ?p = 0 \<or> 0 < ?p" by (rule less_linear)
    with nz False have "?p < 0" by blast
    then show ?thesis using a r False
      by (simp add: calculate_pitch_adjustment_def Let_def float_str_zero)
  qed
qed

theorem zero_string_only_for_equal_bpm_witness:
  "calculate_pitch_adjustment 100000 100001 = Inr ''+0.0'' \<and>
   calculate_pitch_adjustment 100001 100000 = Inr ''-0.0'' \<and>
   calculate_pitch_adjustment 100001 100000 \<noteq> Inr ''0''"
proof -
  have up: "hundredths (round2 (((100001 - 100000) / 100000) * 100)) = 0"
    by (simp add: eval_simps)
  have down: "hundredths (round2 (((100000 - 100001) / 100001) * 100)) = 0"
    by (simp add: eval_simps)
  show ?thesis
    using zero_string_only_for_equal_bpm [of 100000 100001] up
      zero_string_only_for_equal_bpm [of 100001 100000] down
    by simp
qed

end
